theory Spec2Isabelle
  imports Main
begin

section \<open>Data model of the stack view\<close>

text \<open>
  The development embeds the transition bookkeeping of
  \<^verbatim>\<open>packages/stack/src/vendor/views/Stack/StackView.tsx\<close>: the static method
  \<^verbatim>\<open>getDerivedStateFromProps\<close> (the reconciler), the handlers
  \<^verbatim>\<open>handleOpenRoute\<close> and \<^verbatim>\<open>handleCloseRoute\<close>, and the query
  \<^verbatim>\<open>getGesturesEnabled\<close>.

  A route is identified by its key; its parameters are opaque to the view.
\<close>

record 'p route =
  key :: string
  routeName :: string
  params :: 'p

text \<open>
  The fields of a descriptor's options that the view reads. A field that may be
  \<^verbatim>\<open>undefined\<close> is an option. The transition callbacks, the navigation object and
  the component factory of a descriptor play no part in the bookkeeping and are left out.
\<close>

datatype animationType = Push | Pop

record options =
  animationEnabled :: "bool option"
  gestureEnabled :: "bool option"
  animationTypeForReplace :: "animationType option"

record descriptor =
  options :: options

text \<open>
  The descriptor objects of the props and of the state are plain objects of the host
  language, used as dictionaries from route keys: their prototype is
  \<^verbatim>\<open>Object.prototype\<close> and their own properties are made by assignment. Reading
  such an object at a key gives the own property when there is one, and otherwise what
  \<^verbatim>\<open>Object.prototype\<close> has under this name. Every member of \<^verbatim>\<open>Object.prototype\<close>
  is a function, or under \<^verbatim>\<open>__proto__\<close> the prototype itself: a value that counts as
  true and whose \<^verbatim>\<open>options\<close> is \<^verbatim>\<open>undefined\<close>. The reconciler copies what it
  reads into the state, so what a descriptor object stores under a key is a descriptor or
  such a member.
\<close>

datatype jsValue = Descriptor descriptor | NonDescriptor

type_synonym StackDescriptorMap = "string \<rightharpoonup> jsValue"

text \<open>The names of the members of \<^verbatim>\<open>Object.prototype\<close>.\<close>

definition objectPrototypeMembers :: "string list" where
  "objectPrototypeMembers =
     [''constructor'', ''hasOwnProperty'', ''isPrototypeOf'', ''propertyIsEnumerable'',
      ''toLocaleString'', ''toString'', ''valueOf'', ''__proto__'',
      ''__defineGetter__'', ''__defineSetter__'', ''__lookupGetter__'', ''__lookupSetter__'']"

text \<open>
  \<^verbatim>\<open>object[key]\<close> on a descriptor object with the own properties \<open>m\<close>. An assignment
  cannot make an own property named \<^verbatim>\<open>__proto__\<close>, so under this name the read
  always gives the prototype.
\<close>

definition getProperty :: "StackDescriptorMap \<Rightarrow> string \<Rightarrow> jsValue option" where
  "getProperty m k =
     (if k = ''__proto__'' then Some NonDescriptor
      else (case m k of
              Some v \<Rightarrow> Some v
            | None \<Rightarrow> if k \<in> set objectPrototypeMembers then Some NonDescriptor else None))"

text \<open>
  \<^verbatim>\<open>object[key] = v\<close> on a descriptor object. Under \<^verbatim>\<open>__proto__\<close> the
  assignment sets the prototype and makes no own property; the only value the reconciler
  assigns there is the one it has read under this name, the prototype that the object
  already has.
\<close>

definition setProperty :: "StackDescriptorMap \<Rightarrow> string \<Rightarrow> jsValue option \<Rightarrow> StackDescriptorMap" where
  "setProperty m k v = (if k = ''__proto__'' then m else m(k := v))"

text \<open>
  The source compares the routes array and the descriptor object of the props with the
  ones it saw before by \<^verbatim>\<open>===\<close>, that is by identity and not by contents. An
  object that is compared this way carries the identity it was allocated with.
\<close>

datatype 'a obj = Obj (obj_id: nat) (obj_val: 'a)

text \<open>
  The same objects have the same identity; two objects with different contents never have.
  The focused index is a number of the host language, taken here to be an integer, which
  may lie outside the routes.
\<close>

definition same_ref :: "'a obj \<Rightarrow> 'a obj \<Rightarrow> bool" where
  "same_ref a b = (obj_id a = obj_id b)"

record 'p navigationState =
  nav_routes :: "'p route list obj"
  nav_index :: int

record 'p Props =
  props_state :: "'p navigationState"
  props_descriptors :: "StackDescriptorMap obj"

record 'p State =
  routes :: "'p route list"
  previousRoutes :: "'p route list obj"
  previousDescriptors :: "StackDescriptorMap obj"
  openingRouteKeys :: "string list"
  closingRouteKeys :: "string list"
  replacingRouteKeys :: "string list"
  descriptors :: StackDescriptorMap

text \<open>
  What the source can throw: the explicit \<^verbatim>\<open>Error\<close> with its message, and the
  \<^verbatim>\<open>TypeError\<close> of reading a property of \<^verbatim>\<open>undefined\<close>.
\<close>

datatype error = Error string | TypeError

datatype action = StackActions_pop string | StackActions_completeTransition string

section \<open>Array helpers of the host language\<close>

text \<open>\<^verbatim>\<open>xs[xs.length - 1]\<close>: \<^verbatim>\<open>undefined\<close> on the empty array.\<close>

definition lastRoute :: "'a list \<Rightarrow> 'a option" where
  "lastRoute xs = (if xs = [] then None else Some (last xs))"

text \<open>\<^verbatim>\<open>xs[i]\<close> for a number \<open>i\<close>: \<^verbatim>\<open>undefined\<close> out of range.\<close>

definition at_index :: "'a list \<Rightarrow> int \<Rightarrow> 'a option" where
  "at_index xs i = (if 0 \<le> i \<and> i < int (length xs) then Some (xs ! nat i) else None)"

text \<open>
  \<^verbatim>\<open>xs.slice(0, e)\<close>: a negative end counts from the end of the array, and the
  result is clamped to the array.
\<close>

definition slice0 :: "'a list \<Rightarrow> int \<Rightarrow> 'a list" where
  "slice0 xs e =
     (let n = int (length xs);
          k = (if e < 0 then max (n + e) 0 else min e n)
      in take (nat k) xs)"

text \<open>
  \<^verbatim>\<open>xs.splice(xs.length - 1, 0, ...items)\<close> on a copy of \<open>xs\<close>: the items go
  just before the last element; on the empty array the start \<open>-1\<close> is clamped to \<open>0\<close>.
\<close>

definition spliceBeforeLast :: "'a list \<Rightarrow> 'a list \<Rightarrow> 'a list" where
  "spliceBeforeLast xs items = take (length xs - 1) xs @ items @ drop (length xs - 1) xs"

text \<open>\<^verbatim>\<open>xs.findIndex(p)\<close>: \<open>-1\<close> when no element satisfies \<open>p\<close>.\<close>

fun findIndex :: "('a \<Rightarrow> bool) \<Rightarrow> 'a list \<Rightarrow> int" where
  "findIndex P [] = -1"
| "findIndex P (x # xs) =
     (if P x then 0 else (let i = findIndex P xs in if i < 0 then -1 else i + 1))"

definition without :: "string \<Rightarrow> string list \<Rightarrow> string list" where
  "without k ks = filter (\<lambda>key'. key' \<noteq> k) ks"

section \<open>The reconciler\<close>

text \<open>\<^verbatim>\<open>props.descriptors[key] || state.descriptors[key]\<close>\<close>

definition lookupDescriptor :: "StackDescriptorMap \<Rightarrow> StackDescriptorMap \<Rightarrow> string \<Rightarrow> jsValue option" where
  "lookupDescriptor pd sd k =
     (case getProperty pd k of Some v \<Rightarrow> Some v | None \<Rightarrow> getProperty sd k)"

text \<open>
  The guard \<^verbatim>\<open>descriptor ? ... : true\<close> lets a value through that is not a
  descriptor; reading \<^verbatim>\<open>animationEnabled\<close> of its missing options throws.
\<close>

definition isAnimationEnabled :: "'p Props \<Rightarrow> 'p State \<Rightarrow> string \<Rightarrow> error + bool" where
  "isAnimationEnabled props st k =
     (case lookupDescriptor (obj_val (props_descriptors props)) (descriptors st) k of
        None \<Rightarrow> Inr True
      | Some NonDescriptor \<Rightarrow> Inl TypeError
      | Some (Descriptor d) \<Rightarrow> Inr (animationEnabled (options d) \<noteq> Some False))"

text \<open>The source reads \<^verbatim>\<open>descriptor.options\<close> without a guard here.\<close>

definition getAnimationTypeForReplace :: "'p Props \<Rightarrow> 'p State \<Rightarrow> string \<Rightarrow> error + animationType" where
  "getAnimationTypeForReplace props st k =
     (case lookupDescriptor (obj_val (props_descriptors props)) (descriptors st) k of
        None \<Rightarrow> Inl TypeError
      | Some NonDescriptor \<Rightarrow> Inl TypeError
      | Some (Descriptor d) \<Rightarrow>
          Inr (case animationTypeForReplace (options d) of None \<Rightarrow> Push | Some t \<Rightarrow> t))"

text \<open>
  The \<^verbatim>\<open>reduce\<close> that rebuilds the descriptor object for the given routes, from
  the empty object. A key under which neither side gives a value is stored as
  \<^verbatim>\<open>undefined\<close>; no member of \<^verbatim>\<open>Object.prototype\<close> is such a key, so every
  reader treats it like an absent key.
\<close>

definition mergeDescriptors :: "StackDescriptorMap \<Rightarrow> StackDescriptorMap \<Rightarrow> 'p route list \<Rightarrow> StackDescriptorMap" where
  "mergeDescriptors pd sd rs =
     foldl (\<lambda>acc r. setProperty acc (key r) (lookupDescriptor pd sd (key r))) Map.empty rs"

text \<open>
  \<^verbatim>\<open>xs.filter(p)\<close> for a callback that may throw: the elements are visited in order
  and the first throw ends the call.
\<close>

fun filterRoutes :: "('a \<Rightarrow> error + bool) \<Rightarrow> 'a list \<Rightarrow> error + 'a list" where
  "filterRoutes p [] = Inr []"
| "filterRoutes p (x # xs) =
     (case p x of
        Inl e \<Rightarrow> Inl e
      | Inr b \<Rightarrow>
          (case filterRoutes p xs of
             Inl e \<Rightarrow> Inl e
           | Inr ys \<Rightarrow> Inr (if b then x # ys else ys)))"

text \<open>
  The branch taken when the focus did not change (or there was no previous focus): routes
  still closing or being replaced are kept just before the focused one, when their
  animation is enabled.
\<close>

definition keepPending ::
  "'p Props \<Rightarrow> 'p State \<Rightarrow> 'p route list \<Rightarrow>
   error + ('p route list \<times> string list \<times> string list \<times> string list)" where
  "keepPending props st rs =
     (if replacingRouteKeys st \<noteq> [] \<or> closingRouteKeys st \<noteq> [] then
        (case filterRoutes
                (\<lambda>r. case isAnimationEnabled props st (key r) of
                        Inl e \<Rightarrow> Inl e
                      | Inr enabled \<Rightarrow>
                          Inr (if enabled
                               then key r \<in> set (replacingRouteKeys st)
                                    \<or> key r \<in> set (closingRouteKeys st)
                               else False))
                (routes st) of
           Inl e \<Rightarrow> Inl e
         | Inr kept \<Rightarrow>
             Inr (spliceBeforeLast rs kept,
                  openingRouteKeys st, closingRouteKeys st, replacingRouteKeys st))
      else Inr (rs, openingRouteKeys st, closingRouteKeys st, replacingRouteKeys st))"

text \<open>
  The replace case inside the push branch: the new focused route has just been added to
  the opening keys (\<open>opening\<close>, \<open>closing\<close> and \<open>replacing\<close> are the lists after that
  step) and the previously focused route \<open>pf\<close> is not among the truncated routes.
\<close>

definition replaceRoute ::
  "'p Props \<Rightarrow> 'p State \<Rightarrow> 'p route list \<Rightarrow> 'p route \<Rightarrow> 'p route \<Rightarrow>
   string list \<Rightarrow> string list \<Rightarrow> string list \<Rightarrow>
   error + ('p route list \<times> string list \<times> string list \<times> string list)" where
  "replaceRoute props st rs pf nf opening closing replacing =
     (let opening' = without (key pf) opening in
      case getAnimationTypeForReplace props st (key nf) of
        Inl e \<Rightarrow> Inl e
      | Inr ty \<Rightarrow>
          if ty = Pop then
            Inr (rs @ [pf], without (key nf) opening', closing @ [key pf], replacing)
          else
            Inr (spliceBeforeLast rs [pf], opening', without (key pf) closing,
                 replacing @ [key pf]))"

text \<open>
  The decision which routes were added or removed, on the truncated routes \<open>rs\<close>. The
  result is the new route list with the opening, closing and replacing keys.
\<close>

definition transitionRoutes ::
  "'p Props \<Rightarrow> 'p State \<Rightarrow> 'p route list \<Rightarrow>
   error + ('p route list \<times> string list \<times> string list \<times> string list)" where
  "transitionRoutes props st rs =
     (case lastRoute (obj_val (previousRoutes st)) of
        None \<Rightarrow> keepPending props st rs
      | Some pf \<Rightarrow>
          (case lastRoute rs of
             None \<Rightarrow> Inl TypeError
           | Some nf \<Rightarrow>
               if key pf \<noteq> key nf then
                 (if find (\<lambda>r. key r = key nf) (obj_val (previousRoutes st)) = None then
                    (case isAnimationEnabled props st (key nf) of
                       Inl e \<Rightarrow> Inl e
                     | Inr enabled \<Rightarrow>
                         if enabled \<and> key nf \<notin> set (openingRouteKeys st) then
                           (if find (\<lambda>r. key r = key pf) rs = None then
                              replaceRoute props st rs pf nf
                                (openingRouteKeys st @ [key nf])
                                (without (key nf) (closingRouteKeys st))
                                (without (key nf) (replacingRouteKeys st))
                            else
                              Inr (rs, openingRouteKeys st @ [key nf],
                                   without (key nf) (closingRouteKeys st),
                                   without (key nf) (replacingRouteKeys st)))
                         else
                           Inr (rs, openingRouteKeys st, closingRouteKeys st,
                                replacingRouteKeys st))
                  else if find (\<lambda>r. key r = key pf) rs = None then
                    (case isAnimationEnabled props st (key pf) of
                       Inl e \<Rightarrow> Inl e
                     | Inr enabled \<Rightarrow>
                         if enabled \<and> key pf \<notin> set (closingRouteKeys st) then
                           Inr (rs @ [pf], without (key pf) (openingRouteKeys st),
                                closingRouteKeys st @ [key pf],
                                without (key pf) (replacingRouteKeys st))
                         else
                           Inr (rs, openingRouteKeys st, closingRouteKeys st,
                                replacingRouteKeys st))
                  else
                    Inr (rs, openingRouteKeys st, closingRouteKeys st, replacingRouteKeys st))
               else keepPending props st rs))"

text \<open>The routes up to the focused one.\<close>

definition truncateRoutes :: "'p navigationState \<Rightarrow> 'p route list" where
  "truncateRoutes ns =
     (if nav_index ns < int (length (obj_val (nav_routes ns))) - 1
      then slice0 (obj_val (nav_routes ns)) (nav_index ns + 1)
      else obj_val (nav_routes ns))"

definition invariantMessage :: string where
  "invariantMessage = ''There should always be at least one route in the navigation state.''"

text \<open>
  \<^verbatim>\<open>getDerivedStateFromProps\<close>. The source returns the fields to change, or
  \<^verbatim>\<open>null\<close> for no change, and the framework merges them into the state; the
  model returns the merged state.
\<close>

definition getDerivedStateFromProps :: "'p Props \<Rightarrow> 'p State \<Rightarrow> error + 'p State" where
  "getDerivedStateFromProps props st =
     (if same_ref (nav_routes (props_state props)) (previousRoutes st) \<and> routes st \<noteq> [] then
        (if \<not> same_ref (props_descriptors props) (previousDescriptors st) then
           Inr (st\<lparr>previousDescriptors := props_descriptors props,
                   descriptors :=
                     mergeDescriptors (obj_val (props_descriptors props)) (descriptors st)
                       (routes st)\<rparr>)
         else Inr st)
      else
        (case transitionRoutes props st (truncateRoutes (props_state props)) of
           Inl e \<Rightarrow> Inl e
         | Inr (rs, opening, closing, replacing) \<Rightarrow>
             if rs = [] then Inl (Error invariantMessage)
             else
               Inr \<lparr>routes = rs,
                    previousRoutes = nav_routes (props_state props),
                    previousDescriptors = props_descriptors props,
                    openingRouteKeys = opening,
                    closingRouteKeys = closing,
                    replacingRouteKeys = replacing,
                    descriptors =
                      mergeDescriptors (obj_val (props_descriptors props)) (descriptors st) rs\<rparr>))"

text \<open>The state a view is created with. Its two remembered objects are fresh.\<close>

definition initialState :: "nat \<Rightarrow> nat \<Rightarrow> 'p State" where
  "initialState i j =
     \<lparr>routes = [], previousRoutes = Obj i [], previousDescriptors = Obj j Map.empty,
      openingRouteKeys = [], closingRouteKeys = [], replacingRouteKeys = [],
      descriptors = Map.empty\<rparr>"

section \<open>Handlers and queries\<close>

text \<open>
  \<open>os\<close> is the value of \<^verbatim>\<open>Platform.OS\<close>. The guard \<^verbatim>\<open>if (descriptor)\<close>
  lets a value through that is not a descriptor; taking the fields out of its missing
  options throws.
\<close>

definition getGesturesEnabled :: "string \<Rightarrow> 'p State \<Rightarrow> 'p route \<Rightarrow> error + bool" where
  "getGesturesEnabled os st route =
     (case getProperty (descriptors st) (key route) of
        Some (Descriptor d) \<Rightarrow>
          (if animationEnabled (options d) = Some False then Inr False
           else (case gestureEnabled (options d) of
                   Some g \<Rightarrow> Inr g
                 | None \<Rightarrow> Inr (os \<noteq> ''android'')))
      | Some NonDescriptor \<Rightarrow> Inl TypeError
      | None \<Rightarrow> Inr False)"

text \<open>
  A handler returns the state after its \<^verbatim>\<open>setState\<close> together with the actions it
  dispatched on the navigation object, in order.
\<close>

definition handleTransitionComplete :: "'p route \<Rightarrow> action list" where
  "handleTransitionComplete route = [StackActions_completeTransition (key route)]"

definition handleOpenRoute :: "'p State \<Rightarrow> 'p route \<Rightarrow> 'p State \<times> action list" where
  "handleOpenRoute st route =
     (st\<lparr>routes :=
           (if replacingRouteKeys st \<noteq> []
            then filter (\<lambda>r. key r \<notin> set (replacingRouteKeys st)) (routes st)
            else routes st),
         openingRouteKeys := without (key route) (openingRouteKeys st),
         closingRouteKeys := without (key route) (closingRouteKeys st),
         replacingRouteKeys := []\<rparr>,
      handleTransitionComplete route)"

text \<open>
  In the second branch the route handed to \<^verbatim>\<open>handleTransitionComplete\<close> is
  \<^verbatim>\<open>this.state.routes[Math.max(index - 1, 0)]\<close>, which is \<^verbatim>\<open>undefined\<close> when
  the local routes are empty; reading its key throws before any state is set.
\<close>

definition handleCloseRoute :: "'p Props \<Rightarrow> 'p State \<Rightarrow> 'p route \<Rightarrow> error + ('p State \<times> action list)" where
  "handleCloseRoute props st route =
     (if find (\<lambda>r. key r = key route) (obj_val (nav_routes (props_state props))) \<noteq> None then
        Inr (st, [StackActions_pop (key route)])
      else
        (let index = findIndex (\<lambda>r. key r = key route) (routes st) in
         case at_index (routes st) (max (index - 1) 0) of
           None \<Rightarrow> Inl TypeError
         | Some r \<Rightarrow>
             Inr (st\<lparr>routes := filter (\<lambda>r. key r \<noteq> key route) (routes st),
                     openingRouteKeys := without (key route) (openingRouteKeys st),
                     closingRouteKeys := without (key route) (closingRouteKeys st)\<rparr>,
                  handleTransitionComplete r)))"

text \<open>
  One change of the render state: a successful reconciliation against some props, or a
  handler called for some route.
\<close>

inductive step :: "'p State \<Rightarrow> 'p State \<Rightarrow> bool" where
  step_derive: "getDerivedStateFromProps props st = Inr st' \<Longrightarrow> step st st'"
| step_open: "handleOpenRoute st route = (st', acts) \<Longrightarrow> step st st'"
| step_close: "handleCloseRoute props st route = Inr (st', acts) \<Longrightarrow> step st st'"

text \<open>
  The render states the view can be in: the state it is created with, and every state
  reached from it by such changes.
\<close>

inductive reachable :: "'p State \<Rightarrow> bool" where
  reach_init: "reachable (initialState i j)"
| reach_step: "reachable st \<Longrightarrow> step st st' \<Longrightarrow> reachable st'"

text \<open>The framework calls the reconciler for each update of the props in turn.\<close>

fun deriveAll :: "'p Props list \<Rightarrow> 'p State \<Rightarrow> error + 'p State" where
  "deriveAll [] st = Inr st"
| "deriveAll (props # rest) st =
     (case getDerivedStateFromProps props st of
        Inl e \<Rightarrow> Inl e
      | Inr st' \<Rightarrow> deriveAll rest st')"

text \<open>What the card stack is given to draw: the routes and the three key lists.\<close>

definition rendered :: "'p State \<Rightarrow> 'p route list \<times> string list \<times> string list \<times> string list" where
  "rendered st = (routes st, openingRouteKeys st, closingRouteKeys st, replacingRouteKeys st)"

text \<open>The keys that are in one of the three key lists of \<open>st'\<close> and were not in that list of \<open>st\<close>.\<close>

definition addedKeys :: "'p State \<Rightarrow> 'p State \<Rightarrow> string set" where
  "addedKeys st st' =
     (set (openingRouteKeys st') - set (openingRouteKeys st))
     \<union> (set (closingRouteKeys st') - set (closingRouteKeys st))
     \<union> (set (replacingRouteKeys st') - set (replacingRouteKeys st))"

section \<open>Concrete routes, screens and updates\<close>

definition routeA :: "unit route" where
  "routeA = \<lparr>key = ''A'', routeName = ''Home'', params = ()\<rparr>"

definition routeB :: "unit route" where
  "routeB = \<lparr>key = ''B'', routeName = ''Details'', params = ()\<rparr>"

definition routeC :: "unit route" where
  "routeC = \<lparr>key = ''C'', routeName = ''Settings'', params = ()\<rparr>"

text \<open>A route whose key is the name of a member of \<^verbatim>\<open>Object.prototype\<close>.\<close>

definition routeConstructor :: "unit route" where
  "routeConstructor = \<lparr>key = ''constructor'', routeName = ''Profile'', params = ()\<rparr>"

text \<open>A descriptor with the given \<^verbatim>\<open>animationEnabled\<close> and \<^verbatim>\<open>animationTypeForReplace\<close>.\<close>

definition screenDescriptor :: "bool option \<Rightarrow> animationType option \<Rightarrow> descriptor" where
  "screenDescriptor anim ty =
     \<lparr>options = \<lparr>animationEnabled = anim, gestureEnabled = None, animationTypeForReplace = ty\<rparr>\<rparr>"

text \<open>The same descriptor as the value of a property of a descriptor object.\<close>

definition screen :: "bool option \<Rightarrow> animationType option \<Rightarrow> jsValue" where
  "screen anim ty = Descriptor (screenDescriptor anim ty)"

text \<open>
  A render state at rest: it shows exactly the external routes \<open>rs\<close> (held in the
  object \<open>i\<close>) and no transition is pending.
\<close>

definition settled :: "nat \<Rightarrow> unit route list \<Rightarrow> StackDescriptorMap \<Rightarrow> unit State" where
  "settled i rs ds =
     \<lparr>routes = rs, previousRoutes = Obj i rs, previousDescriptors = Obj i ds,
      openingRouteKeys = [], closingRouteKeys = [], replacingRouteKeys = [],
      descriptors = ds\<rparr>"

text \<open>Props with the routes \<open>rs\<close>, the focused index \<open>ix\<close> and the descriptors \<open>ds\<close>, both objects new.\<close>

definition update :: "nat \<Rightarrow> unit route list \<Rightarrow> int \<Rightarrow> StackDescriptorMap \<Rightarrow> unit Props" where
  "update i rs ix ds =
     \<lparr>props_state = \<lparr>nav_routes = Obj i rs, nav_index = ix\<rparr>, props_descriptors = Obj i ds\<rparr>"

section \<open>Basic facts\<close>

lemma set_spliceBeforeLast: "set (spliceBeforeLast xs items) = set xs \<union> set items"
proof -
  have "set (take (length xs - 1) xs) \<union> set (drop (length xs - 1) xs) = set xs"
    by (metis append_take_drop_id set_append)
  then show ?thesis by (auto simp: spliceBeforeLast_def)
qed

lemma lastRoute_in_set: "lastRoute xs = Some x \<Longrightarrow> x \<in> set xs"
  by (auto simp: lastRoute_def split: if_splits)

lemma set_without: "set (without k ks) = set ks - {k}"
  by (auto simp: without_def)

lemma without_absent: "k \<notin> set ks \<Longrightarrow> without k ks = ks"
  by (auto simp: without_def filter_id_conv)

lemma find_key_None: "(find (\<lambda>r. key r = k) rs = None) = (k \<notin> key ` set rs)"
  by (auto simp: find_None_iff)

text \<open>A key that is no member name of the prototype is read from the own properties alone.\<close>

lemma getProperty_ordinary:
  "k \<notin> set objectPrototypeMembers \<Longrightarrow> getProperty m k = m k"
  by (auto simp: getProperty_def objectPrototypeMembers_def split: option.splits)

text \<open>What the external object gives under a key comes first, the retained object second.\<close>

lemma lookupDescriptor_external_first:
  "getProperty pd k = Some v \<Longrightarrow> lookupDescriptor pd sd k = Some v"
  by (simp add: lookupDescriptor_def)

lemma lookupDescriptor_retained_second:
  "getProperty pd k = None \<Longrightarrow> lookupDescriptor pd sd k = getProperty sd k"
  by (simp add: lookupDescriptor_def)



lemma keepPending_keys:
  assumes "keepPending props st rs = Inr (rs', ok, ck, rk)"
  shows "ok = openingRouteKeys st \<and> ck = closingRouteKeys st \<and> rk = replacingRouteKeys st"
  using assms
  by (auto simp: keepPending_def split: if_splits sum.splits)

lemma transitionRoutes_disjoint:
  assumes "transitionRoutes props st rs = Inr (rs', ok, ck, rk)"
    and "set (openingRouteKeys st) \<inter> set (closingRouteKeys st) = {}"
  shows "set ok \<inter> set ck = {}"
  using assms
  unfolding transitionRoutes_def replaceRoute_def Let_def
  by (auto simp: set_without split: option.splits if_splits sum.splits
           dest!: keepPending_keys)

lemma transitionRoutes_new_keys:
  assumes "transitionRoutes props st rs = Inr (rs', ok, ck, rk)"
  shows "set ok - set (openingRouteKeys st) \<subseteq> key ` set rs'
       \<and> set ck - set (closingRouteKeys st) \<subseteq> key ` set rs'
       \<and> set rk - set (replacingRouteKeys st) \<subseteq> key ` set rs'"
  using assms
  unfolding transitionRoutes_def replaceRoute_def Let_def
  by (auto simp: set_without set_spliceBeforeLast split: option.splits if_splits sum.splits
           dest!: keepPending_keys dest: lastRoute_in_set)

text \<open>A reconciliation that returns, returns at least one route.\<close>

lemma getDerivedStateFromProps_nonempty:
  "getDerivedStateFromProps props st = Inr st' \<Longrightarrow> routes st' \<noteq> []"
  unfolding getDerivedStateFromProps_def
  by (auto split: if_splits sum.splits prod.splits)

lemma derive_disjoint:
  assumes "getDerivedStateFromProps props st = Inr st'"
    and "set (openingRouteKeys st) \<inter> set (closingRouteKeys st) = {}"
  shows "set (openingRouteKeys st') \<inter> set (closingRouteKeys st') = {}"
proof (cases "same_ref (nav_routes (props_state props)) (previousRoutes st) \<and> routes st \<noteq> []")
  case True
  with assms show ?thesis
    by (auto simp: getDerivedStateFromProps_def split: if_splits)
next
  case False
  with assms(1) obtain rs ok ck rk where
    t: "transitionRoutes props st (truncateRoutes (props_state props)) = Inr (rs, ok, ck, rk)"
    and o: "openingRouteKeys st' = ok" and c: "closingRouteKeys st' = ck"
    by (auto simp: getDerivedStateFromProps_def split: sum.splits prod.splits if_splits)
  from transitionRoutes_disjoint [OF t assms(2)] o c show ?thesis by simp
qed

lemma derive_added_keys:
  assumes "getDerivedStateFromProps props st = Inr st'"
  shows "addedKeys st st' \<subseteq> key ` set (routes st')"
proof (cases "same_ref (nav_routes (props_state props)) (previousRoutes st) \<and> routes st \<noteq> []")
  case True
  with assms show ?thesis
    by (auto simp: getDerivedStateFromProps_def addedKeys_def split: if_splits)
next
  case False
  with assms obtain rs ok ck rk where
    t: "transitionRoutes props st (truncateRoutes (props_state props)) = Inr (rs, ok, ck, rk)"
    and r: "routes st' = rs"
    and o: "openingRouteKeys st' = ok" and c: "closingRouteKeys st' = ck"
    and p: "replacingRouteKeys st' = rk"
    by (auto simp: getDerivedStateFromProps_def split: sum.splits prod.splits if_splits)
  from transitionRoutes_new_keys [OF t] r o c p show ?thesis
    by (simp add: addedKeys_def)
qed

lemma open_keys_subset:
  assumes "handleOpenRoute st route = (st', acts)"
  shows "set (openingRouteKeys st') \<subseteq> set (openingRouteKeys st)"
    and "set (closingRouteKeys st') \<subseteq> set (closingRouteKeys st)"
    and "set (replacingRouteKeys st') \<subseteq> set (replacingRouteKeys st)"
  using assms by (auto simp: handleOpenRoute_def set_without)

lemma close_keys_subset:
  assumes "handleCloseRoute props st route = Inr (st', acts)"
  shows "set (openingRouteKeys st') \<subseteq> set (openingRouteKeys st)"
    and "set (closingRouteKeys st') \<subseteq> set (closingRouteKeys st)"
    and "set (replacingRouteKeys st') \<subseteq> set (replacingRouteKeys st)"
  using assms
  by (auto simp: handleCloseRoute_def set_without Let_def split: if_splits option.splits)

lemma step_disjoint:
  assumes "step st st'"
    and "set (openingRouteKeys st) \<inter> set (closingRouteKeys st) = {}"
  shows "set (openingRouteKeys st') \<inter> set (closingRouteKeys st') = {}"
  using assms
proof (cases rule: step.cases)
  case (step_derive props)
  then show ?thesis using derive_disjoint assms(2) by blast
next
  case (step_open route acts)
  from open_keys_subset(1,2) [OF this] assms(2) show ?thesis by blast
next
  case (step_close props route acts)
  from close_keys_subset(1,2) [OF this] assms(2) show ?thesis by blast
qed

lemma deriveAll_reachable:
  "reachable st \<Longrightarrow> deriveAll ps st = Inr st' \<Longrightarrow> reachable st'"
proof (induction ps arbitrary: st)
  case Nil
  then show ?case by simp
next
  case (Cons p ps)
  from Cons.prems(2) obtain st1 where
    d: "getDerivedStateFromProps p st = Inr st1" and r: "deriveAll ps st1 = Inr st'"
    by (auto split: sum.splits)
  from Cons.prems(1) d have "reachable st1"
    by (blast intro: reach_step step_derive)
  with r show ?case by (rule Cons.IH [rotated])
qed

lemmas scenario_defs =
  rendered_def routeA_def routeB_def routeC_def routeConstructor_def screen_def
  screenDescriptor_def settled_def update_def initialState_def

lemmas reconciler_defs =
  getDerivedStateFromProps_def transitionRoutes_def replaceRoute_def keepPending_def
  truncateRoutes_def same_ref_def lastRoute_def slice0_def spliceBeforeLast_def without_def
  isAnimationEnabled_def getAnimationTypeForReplace_def lookupDescriptor_def
  mergeDescriptors_def getProperty_def setProperty_def objectPrototypeMembers_def

text \<open>
  A found descriptor decides whether the animation is enabled and which style a replace
  takes.
\<close>

lemma isAnimationEnabled_found:
  "lookupDescriptor (obj_val (props_descriptors props)) (descriptors st) k = Some (Descriptor d)
   \<Longrightarrow> isAnimationEnabled props st k = Inr (animationEnabled (options d) \<noteq> Some False)"
  by (simp add: isAnimationEnabled_def)

lemma getAnimationTypeForReplace_found:
  assumes "lookupDescriptor (obj_val (props_descriptors props)) (descriptors st) k
             = Some (Descriptor d)"
  shows "getAnimationTypeForReplace props st k =
           Inr (if animationTypeForReplace (options d) = Some Pop then Pop else Push)"
proof (cases "animationTypeForReplace (options d)")
  case None
  with assms show ?thesis by (simp add: getAnimationTypeForReplace_def)
next
  case (Some t)
  with assms show ?thesis by (cases t) (simp_all add: getAnimationTypeForReplace_def)
qed

section \<open>The replace style (C1)\<close>




section \<open>The routes are never empty (C2)\<close>

text \<open>
  C2: every reconciliation either returns at least one route or raises the invariant
  error. The source never returns an empty route list
  (\<open>getDerivedStateFromProps_nonempty\<close>), but the invariant error is not the only way
  it fails: when the external routes become empty while a previously focused route is
  remembered, the key of the missing focused route is read before the check of the
  invariant is reached, and the call ends in a type error.
\<close>

theorem empty_routes_after_focus_type_error:
  "getDerivedStateFromProps
     (update 2 [] 0 Map.empty)
     (settled 1 [routeA] [''A'' \<mapsto> screen None None])
   = Inl TypeError"
  by (simp add: scenario_defs reconciler_defs)

section \<open>Unchanged routes (C3)\<close>




section \<open>Opening and closing keys are disjoint (C4)\<close>

text \<open>
  C4: in every render state the view can be in, that is in the initial state and in every
  state produced from it by reconciliations and by the two handlers, no key is both in
  the opening and in the closing keys.
\<close>

theorem opening_closing_disjoint:
  "reachable st \<Longrightarrow> set (openingRouteKeys st) \<inter> set (closingRouteKeys st) = {}"
proof (induction rule: reachable.induct)
  case (reach_init i j)
  show ?case by (simp add: initialState_def)
next
  case (reach_step st st')
  from step_disjoint [OF reach_step.hyps(2) reach_step.IH] show ?case .
qed

theorem opening_closing_disjoint_witness:
  "\<exists>st. deriveAll
           [update 1 [routeA] 0 [''A'' \<mapsto> screen None None],
            update 2 [routeA, routeB] 1 [''A'' \<mapsto> screen None None, ''B'' \<mapsto> screen None None],
            update 3 [routeA] 0 [''A'' \<mapsto> screen None None]]
           (initialState 0 0) = Inr st
        \<and> rendered st = ([routeA, routeB], [], [''B''], [])
        \<and> set (openingRouteKeys st) \<inter> set (closingRouteKeys st) = {}"
proof -
  obtain st where
    d: "deriveAll
           [update 1 [routeA] 0 [''A'' \<mapsto> screen None None],
            update 2 [routeA, routeB] 1 [''A'' \<mapsto> screen None None, ''B'' \<mapsto> screen None None],
            update 3 [routeA] 0 [''A'' \<mapsto> screen None None]]
           (initialState 0 0) = Inr st"
    and r: "rendered st = ([routeA, routeB], [], [''B''], [])"
    by (simp add: scenario_defs reconciler_defs)
  have "reachable st"
    using deriveAll_reachable [OF reach_init d] .
  from opening_closing_disjoint [OF this] d r show ?thesis by blast
qed

section \<open>Pop (C5)\<close>



section \<open>Replace with the push style (C6)\<close>

text \<open>
  With rendered and previous external routes \<open>[a]\<close> and no pending keys, an external
  update to the routes \<open>[b]\<close>, where the reconciler finds for \<open>b\<close> a descriptor that
  neither disables its animation nor asks for the \<open>pop\<close> style, gives the rendered routes
  \<open>[a, b]\<close> with \<open>a\<close> as the only replacing key and \<open>b\<close> as the only opening key. When
  the opening of \<open>b\<close> then completes, the handler acknowledges the transition for \<open>b\<close>,
  drops the replaced route and leaves the routes \<open>[b]\<close> with all key lists empty.
\<close>

lemma replace_push_style_covers_old_route:
  assumes "key a \<noteq> key b"
    and "routes st = [a]" and "obj_val (previousRoutes st) = [a]"
    and "openingRouteKeys st = []" and "closingRouteKeys st = []"
    and "replacingRouteKeys st = []"
    and "\<not> same_ref (nav_routes (props_state props)) (previousRoutes st)"
    and "obj_val (nav_routes (props_state props)) = [b]"
    and "nav_index (props_state props) = 0"
    and "lookupDescriptor (obj_val (props_descriptors props)) (descriptors st) (key b)
           = Some (Descriptor d)"
    and "animationEnabled (options d) \<noteq> Some False"
    and "animationTypeForReplace (options d) \<noteq> Some Pop"
  shows "\<exists>st' st''.
           getDerivedStateFromProps props st = Inr st'
         \<and> rendered st' = ([a, b], [key b], [], [key a])
         \<and> handleOpenRoute st' b = (st'', [StackActions_completeTransition (key b)])
         \<and> rendered st'' = ([b], [], [], [])"
proof -
  have t: "truncateRoutes (props_state props) = [b]"
    using assms(8,9) by (simp add: truncateRoutes_def)
  have ty: "getAnimationTypeForReplace props st (key b) = Inr Push"
    using getAnimationTypeForReplace_found [OF assms(10)] assms(12) by simp
  have an: "isAnimationEnabled props st (key b) = Inr True"
    using isAnimationEnabled_found [OF assms(10)] assms(11) by simp
  have tr: "transitionRoutes props st [b] = Inr ([a, b], [key b], [], [key a])"
    using assms(1-6) an ty
    by (simp add: transitionRoutes_def replaceRoute_def lastRoute_def without_def
          spliceBeforeLast_def)
  obtain st' where
    d: "getDerivedStateFromProps props st = Inr st'"
    and r: "rendered st' = ([a, b], [key b], [], [key a])"
    using assms(7) by (simp add: getDerivedStateFromProps_def t tr rendered_def)
  from r have f: "routes st' = [a, b]" "openingRouteKeys st' = [key b]"
    "closingRouteKeys st' = []" "replacingRouteKeys st' = [key a]"
    by (simp_all add: rendered_def)
  obtain st'' where
    c: "handleOpenRoute st' b = (st'', [StackActions_completeTransition (key b)])"
    and r': "rendered st'' = ([b], [], [], [])"
    using assms(1) f
    by (simp add: handleOpenRoute_def handleTransitionComplete_def without_def rendered_def)
  from d r c r' show ?thesis by blast
qed

text \<open>
  C6: rendered routes \<open>[A]\<close> replaced from outside by \<open>[B]\<close>, with the animation of \<open>B\<close>
  enabled and no \<open>pop\<close> style asked for, are to give the routes \<open>[A, B]\<close>, the replacing
  keys \<open>[A]\<close> and the opening keys \<open>[B]\<close>. These conditions hold when \<open>B\<close> has no
  descriptor at all: the reconciler then finds the animation enabled, as its guard for a
  missing descriptor says, but it reads the replace style without such a guard, and the
  call ends in a type error instead of the push-style result.
\<close>

theorem replace_without_descriptor_type_error:
  "isAnimationEnabled
     (update 2 [routeB] 0 [''A'' \<mapsto> screen None None])
     (settled 1 [routeA] [''A'' \<mapsto> screen None None]) ''B''
   = Inr True
   \<and> getDerivedStateFromProps
       (update 2 [routeB] 0 [''A'' \<mapsto> screen None None])
       (settled 1 [routeA] [''A'' \<mapsto> screen None None])
     = Inl TypeError"
  by (simp add: scenario_defs reconciler_defs)

section \<open>Closing ahead of the external state (C7)\<close>

text \<open>
  C7: when the closing of a route completes while its key is still among the external
  routes, the handler dispatches the pop action for that key, and nothing else, and
  leaves the render state as it is.
\<close>

theorem close_of_external_route_dispatches_pop:
  assumes "key route \<in> key ` set (obj_val (nav_routes (props_state props)))"
  shows "handleCloseRoute props st route = Inr (st, [StackActions_pop (key route)])"
  using assms by (simp add: handleCloseRoute_def find_key_None)

theorem close_of_external_route_dispatches_pop_witness:
  "handleCloseRoute
     (update 1 [routeA, routeB] 1 [''A'' \<mapsto> screen None None, ''B'' \<mapsto> screen None None])
     (settled 1 [routeA, routeB] [''A'' \<mapsto> screen None None, ''B'' \<mapsto> screen None None])
     routeB
   = Inr (settled 1 [routeA, routeB] [''A'' \<mapsto> screen None None, ''B'' \<mapsto> screen None None],
          [StackActions_pop ''B''])"
  using close_of_external_route_dispatches_pop
    [of routeB
        "update 1 [routeA, routeB] 1 [''A'' \<mapsto> screen None None, ''B'' \<mapsto> screen None None]"
        "settled 1 [routeA, routeB] [''A'' \<mapsto> screen None None, ''B'' \<mapsto> screen None None]"]
  by (simp add: routeA_def routeB_def update_def)

section \<open>Push (C8)\<close>



section \<open>Keys and mounted routes (C9)\<close>

text \<open>
  C9, as the claim states it: in every reachable render state each opening, closing and
  replacing key is the key of a rendered route. On the source this fails. From the
  initial state, the external routes \<open>[A]\<close>, then \<open>[A, B]\<close> (\<open>B\<close> is pushed and starts
  opening), then \<open>[C]\<close> with the animation of \<open>C\<close> disabled lead to the rendered routes
  \<open>[C]\<close> while \<open>B\<close> is still an opening key.
\<close>

theorem stale_opening_key_after_unanimated_replace:
  "map_sum id rendered
     (deriveAll
        [update 1 [routeA] 0 [''A'' \<mapsto> screen None None],
         update 2 [routeA, routeB] 1 [''A'' \<mapsto> screen None None, ''B'' \<mapsto> screen None None],
         update 3 [routeC] 0 [''C'' \<mapsto> screen (Some False) None]]
        (initialState 0 0))
   = Inr ([routeC], [''B''], [], [])
   \<and> ''B'' \<notin> key ` set [routeC]"
  by (simp add: scenario_defs reconciler_defs)

text \<open>
  C9, amended: every key that a reconciliation or a handler newly adds to the opening,
  the closing or the replacing keys is the key of a route in the resulting rendered
  routes. (Keys that were in a list before may stay in it after their route is gone.)
\<close>

theorem added_keys_are_mounted:
  "step st st' \<Longrightarrow> addedKeys st st' \<subseteq> key ` set (routes st')"
proof (induction rule: step.induct)
  case (step_derive props st st')
  then show ?case by (rule derive_added_keys)
next
  case (step_open st route st' acts)
  from open_keys_subset [OF this] show ?case
    by (auto simp: addedKeys_def)
next
  case (step_close props st route st' acts)
  from close_keys_subset [OF this] show ?case
    by (auto simp: addedKeys_def)
qed

theorem added_keys_are_mounted_witness:
  "\<exists>st'. getDerivedStateFromProps
            (update 2 [routeB] 0 [''B'' \<mapsto> screen None None])
            (settled 1 [routeA] [''A'' \<mapsto> screen None None]) = Inr st'
         \<and> addedKeys (settled 1 [routeA] [''A'' \<mapsto> screen None None]) st' = {''A'', ''B''}
         \<and> key ` set (routes st') = {''A'', ''B''}
         \<and> addedKeys (settled 1 [routeA] [''A'' \<mapsto> screen None None]) st'
             \<subseteq> key ` set (routes st')"
proof -
  obtain st' where
    d: "getDerivedStateFromProps
          (update 2 [routeB] 0 [''B'' \<mapsto> screen None None])
          (settled 1 [routeA] [''A'' \<mapsto> screen None None]) = Inr st'"
    and a: "addedKeys (settled 1 [routeA] [''A'' \<mapsto> screen None None]) st' = {''A'', ''B''}"
    and k: "key ` set (routes st') = {''A'', ''B''}"
    by (auto simp: scenario_defs reconciler_defs addedKeys_def)
  from added_keys_are_mounted [OF step_derive [OF d]] d a k show ?thesis by blast
qed

section \<open>Gestures without a descriptor (C10)\<close>

text \<open>
  C10, as the claim states it: for a route without a retained descriptor the query
  returns false. On the source this fails for a route whose key is the name of a member
  of \<^verbatim>\<open>Object.prototype\<close>: in the state a view is created with, which retains no
  descriptor at all, the query for a route with the key \<^verbatim>\<open>constructor\<close> finds the
  inherited member, passes the guard and throws a type error on its missing options.
\<close>

theorem gestures_query_throws_for_member_name:
  "descriptors (initialState 0 0 :: unit State) (key routeConstructor) = None
   \<and> getGesturesEnabled ''ios'' (initialState 0 0) routeConstructor = Inl TypeError"
  by (simp add: getGesturesEnabled_def getProperty_def objectPrototypeMembers_def
        initialState_def routeConstructor_def)

text \<open>
  C10, amended: for a route whose key is not the name of a member of
  \<^verbatim>\<open>Object.prototype\<close> and has no entry in the descriptors of the render state, the
  query returns false, on every platform.
\<close>

theorem no_descriptor_no_gestures:
  assumes "descriptors st (key route) = None"
    and "key route \<notin> set objectPrototypeMembers"
  shows "getGesturesEnabled os st route = Inr False"
  using assms by (simp add: getGesturesEnabled_def getProperty_ordinary)

theorem no_descriptor_no_gestures_witness:
  "descriptors (settled 1 [routeA] [''A'' \<mapsto> screen None None]) (key routeB) = None
   \<and> getGesturesEnabled ''ios'' (settled 1 [routeA] [''A'' \<mapsto> screen None None]) routeB
       = Inr False
   \<and> getGesturesEnabled ''ios'' (settled 1 [routeA] [''A'' \<mapsto> screen None None]) routeA
       = Inr True"
proof -
  have h: "descriptors (settled 1 [routeA] [''A'' \<mapsto> screen None None]) (key routeB) = None"
    by (simp add: settled_def routeB_def)
  have m: "key routeB \<notin> set objectPrototypeMembers"
    by (simp add: routeB_def objectPrototypeMembers_def)
  from no_descriptor_no_gestures [OF h m, of "''ios''"] h show ?thesis
    by (simp add: getGesturesEnabled_def getProperty_def objectPrototypeMembers_def
          settled_def routeA_def screen_def screenDescriptor_def)
qed

end
